theory Spec2Isabelle
  imports Main "HOL-Library.Sublist"
begin

section \<open>The tool functions of the weather notebook\<close>

text \<open>
  The notebook \<^verbatim>\<open>part_000\<close> (the tool-calling weather agent) defines two Python functions
  and hands them to the agent library:
  \<^verbatim>\<open>
  @tool(args_model=GetWeatherSchema)
  def get_weather(location: str) -> str:
      import random
      temperature = random.randint(60, 80)
      return f"{location}: {temperature}F."

  @tool(args_model=JumpSchema)
  def jump(distance: str) -> str:
      return f"I jumped the following distance {distance}"
  \<close>
  A Python \<^verbatim>\<open>str\<close> is modelled as a \<^typ>\<open>string\<close>; an exception is a value of type
  \<open>error\<close>. A call that draws a random number has several possible results, so a function
  body denotes the set of its possible outcomes, each one either an exception (\<open>Inl\<close>) or a
  returned value (\<open>Inr\<close>).
\<close>

datatype error =
    ValueError
  | TypeError
  | IndexError
  | KeyError
  | AttributeError
  | LibraryError string

type_synonym 'a outcomes = "(error + 'a) set"

definition returns :: "'a \<Rightarrow> 'a outcomes" where
  "returns x = {Inr x}"

definition and_then :: "'a outcomes \<Rightarrow> ('a \<Rightarrow> 'b outcomes) \<Rightarrow> 'b outcomes" where
  "and_then m f = (\<Union>r \<in> m. case r of Inl e \<Rightarrow> {Inl e} | Inr x \<Rightarrow> f x)"

text \<open>
  \<^verbatim>\<open>random.randint(a, b)\<close> of the Python standard library: any integer \<open>N\<close> with
  \<open>a \<le> N \<le> b\<close>, both ends included; an empty range raises \<^verbatim>\<open>ValueError\<close>.
\<close>

definition randint :: "int \<Rightarrow> int \<Rightarrow> int outcomes" where
  "randint a b = (if a \<le> b then Inr ` {a..b} else {Inl ValueError})"

text \<open>
  \<^verbatim>\<open>str(n)\<close> for a Python \<^verbatim>\<open>int\<close>, which is what the replacement field
  \<^verbatim>\<open>{temperature}\<close> of the f-string produces: decimal digits, most significant first,
  no leading zero, a minus sign for a negative number.
\<close>

definition digit_char :: "nat \<Rightarrow> char" where
  "digit_char d = ''0123456789'' ! d"

fun str_nat :: "nat \<Rightarrow> string" where
  "str_nat n = (if n < 10 then [digit_char n] else str_nat (n div 10) @ [digit_char (n mod 10)])"

declare str_nat.simps [simp del]

definition str_int :: "int \<Rightarrow> string" where
  "str_int i = (if i < 0 then CHR ''-'' # str_nat (nat (- i)) else str_nat (nat i))"

text \<open>The number that a string of decimal digits denotes (the inverse reading of \<open>str_nat\<close>).\<close>

definition decimal_value :: "string \<Rightarrow> nat" where
  "decimal_value ds = foldl (\<lambda>acc c. 10 * acc + (of_char c - 48)) 0 ds"

definition get_weather :: "string \<Rightarrow> string outcomes" where
  "get_weather location =
     and_then (randint 60 80) (\<lambda>temperature.
       returns (location @ '': '' @ str_int temperature @ ''F.''))"

definition jump :: "string \<Rightarrow> string outcomes" where
  "jump distance = returns (''I jumped the following distance '' @ distance)"

section \<open>Python values, requests to the outside, and the notebook kernel\<close>

text \<open>
  Both notebooks are straight-line scripts: their cells import libraries, construct library
  objects and call their methods, and print or display what comes back. The libraries
  (\<^verbatim>\<open>dotenv\<close>, \<^verbatim>\<open>logging\<close>, \<^verbatim>\<open>pydantic\<close>, \<^verbatim>\<open>dapr_agents\<close>) are not part of the notebooks, so
  the model takes their behaviour as a parameter \<open>ext\<close>: a function that answers each request
  of a notebook in the current state of the outside world \<open>'w\<close>, with a value or with an
  exception, and returns the new state of the world. Everything proved about a notebook for
  every \<open>ext\<close> holds whatever the libraries do.

  The functions a notebook defines itself are values too (\<open>PFun\<close>); a library object,
  class, function or module is opaque and known by a handle (\<open>PObj\<close>). A float is kept as
  the decimal numeral Python prints for it (\<open>PFloat m e\<close> for \<open>m\<close> times ten to the \<open>e\<close>).
  Characters are code points below 256, which covers every literal of the two notebooks.
\<close>

datatype fn = Fn_get_weather | Fn_jump

datatype pyval =
    PNone
  | PBool bool
  | PInt int
  | PFloat int int
  | PStr string
  | PList "pyval list"
  | PDict "(string \<times> pyval) list"
  | PFun fn
  | PObj string

text \<open>
  The requests: a shell line (\<^verbatim>\<open>!cmd\<close>), \<^verbatim>\<open>import m\<close>, \<^verbatim>\<open>from m import a, b\<close>, a class
  statement whose base is a library class (name, bases, and for each field its name, its
  annotation and its default), a call \<^verbatim>\<open>f(args, key=value)\<close>, a method call
  \<^verbatim>\<open>v.m(args, key=value)\<close> (one request, made once the arguments are evaluated), an
  attribute read \<^verbatim>\<open>v.a\<close>, and a subscript \<^verbatim>\<open>v[k]\<close> or an iteration over a library object.
\<close>

datatype call =
    Shell string
  | Import string
  | ImportFrom string "string list"
  | ClassDef string "pyval list" "(string \<times> string \<times> pyval) list"
  | Apply pyval "pyval list" "(string \<times> pyval) list"
  | Method pyval string "pyval list" "(string \<times> pyval) list"
  | GetAttr pyval string
  | GetItem pyval pyval
  | Iterate pyval

type_synonym reply = "error + pyval"

type_synonym 'w ext = "call \<Rightarrow> 'w \<Rightarrow> reply \<times> 'w"

text \<open>
  A piece of an f-string: literal text, or a value to be rendered in place (the rendering of
  a value by \<^verbatim>\<open>str\<close> is not modelled; the value itself is kept).
\<close>

datatype frag = Lit string | Val pyval

text \<open>
  The kernel while a notebook runs: the outside world, the requests made so far, each with
  its reply, the lines the notebook's own \<^verbatim>\<open>print\<close> calls wrote, and the values displayed
  as \<^verbatim>\<open>Out[n]\<close>.
\<close>

record 'w kernel =
  world :: 'w
  calls :: "(call \<times> reply) list"
  stdout :: "frag list list"
  shown :: "(nat \<times> pyval) list"

definition start :: "'w \<Rightarrow> 'w kernel" where
  "start w = \<lparr>world = w, calls = [], stdout = [], shown = []\<rparr>"

text \<open>
  A statement takes the kernel and either raises (\<open>Inl\<close>) or yields a value (\<open>Inr\<close>), with the
  kernel as it left it. An exception ends everything that was to follow: there is no
  \<^verbatim>\<open>try\<close> in either notebook, hence no operation that turns \<open>Inl\<close> back into \<open>Inr\<close>.
\<close>

type_synonym ('w, 'a) nb = "'w kernel \<Rightarrow> (error + 'a) \<times> 'w kernel"

definition ret :: "'a \<Rightarrow> ('w, 'a) nb" where
  "ret x = (\<lambda>k. (Inr x, k))"

definition raise :: "error \<Rightarrow> ('w, 'a) nb" where
  "raise e = (\<lambda>k. (Inl e, k))"

definition nb_bind :: "('w, 'a) nb \<Rightarrow> ('a \<Rightarrow> ('w, 'b) nb) \<Rightarrow> ('w, 'b) nb" where
  "nb_bind m f = (\<lambda>k. case m k of (Inl e, k') \<Rightarrow> (Inl e, k') | (Inr x, k') \<Rightarrow> f x k')"

definition nb_seq :: "('w, 'a) nb \<Rightarrow> ('w, 'b) nb \<Rightarrow> ('w, 'b) nb" where
  "nb_seq m n = nb_bind m (\<lambda>_. n)"

definition ext_call :: "'w ext \<Rightarrow> call \<Rightarrow> ('w, pyval) nb" where
  "ext_call ext c =
     (\<lambda>k. case ext c (world k) of
        (r, w') \<Rightarrow> (r, k\<lparr>world := w', calls := calls k @ [(c, r)]\<rparr>))"

text \<open>
  Imports. The names an import binds are never rebound in the notebooks, so an imported
  entity is referred to by the handle made of its module and its name.
\<close>

definition module :: "string \<Rightarrow> pyval" where
  "module m = PObj m"

definition imported :: "string \<Rightarrow> string \<Rightarrow> pyval" where
  "imported m n = PObj (m @ ''.'' @ n)"

definition import_module :: "'w ext \<Rightarrow> string \<Rightarrow> ('w, unit) nb" where
  "import_module ext m = nb_bind (ext_call ext (Import m)) (\<lambda>_. ret ())"

definition import_names :: "'w ext \<Rightarrow> string \<Rightarrow> string list \<Rightarrow> ('w, unit) nb" where
  "import_names ext m ns = nb_bind (ext_call ext (ImportFrom m ns)) (\<lambda>_. ret ())"

definition shell :: "'w ext \<Rightarrow> string \<Rightarrow> ('w, unit) nb" where
  "shell ext cmd = nb_bind (ext_call ext (Shell cmd)) (\<lambda>_. ret ())"

definition class_def ::
  "'w ext \<Rightarrow> string \<Rightarrow> pyval list \<Rightarrow> (string \<times> string \<times> pyval) list \<Rightarrow> ('w, pyval) nb" where
  "class_def ext name bases body = ext_call ext (ClassDef name bases body)"

text \<open>
  Calls, method calls and attribute reads. A library object or a function answers through
  \<open>ext\<close>; \<^verbatim>\<open>None\<close>, a number, a string, a list or a dict is not callable
  (\<^verbatim>\<open>TypeError\<close>), and has none of the attributes and methods the notebooks ask for
  (\<^verbatim>\<open>AttributeError\<close>): \<^verbatim>\<open>INFO\<close>, \<^verbatim>\<open>basicConfig\<close>, \<^verbatim>\<open>prompt_template\<close>, \<^verbatim>\<open>tools\<close>,
  \<^verbatim>\<open>name\<close>, \<^verbatim>\<open>run\<close>, \<^verbatim>\<open>chat_history\<close>, \<^verbatim>\<open>add_documents\<close>, \<^verbatim>\<open>client\<close>,
  \<^verbatim>\<open>list_collections\<close>; every other method is called on a receiver on which one of
  these was asked for before.
\<close>

fun py_call :: "'w ext \<Rightarrow> pyval \<Rightarrow> pyval list \<Rightarrow> (string \<times> pyval) list \<Rightarrow> ('w, pyval) nb" where
  "py_call ext (PObj h) args kwargs = ext_call ext (Apply (PObj h) args kwargs)"
| "py_call ext (PFun f) args kwargs = ext_call ext (Apply (PFun f) args kwargs)"
| "py_call ext _ args kwargs = raise TypeError"

fun py_method ::
  "'w ext \<Rightarrow> pyval \<Rightarrow> string \<Rightarrow> pyval list \<Rightarrow> (string \<times> pyval) list \<Rightarrow> ('w, pyval) nb" where
  "py_method ext (PObj h) m args kwargs = ext_call ext (Method (PObj h) m args kwargs)"
| "py_method ext _ m args kwargs = raise AttributeError"

fun py_getattr :: "'w ext \<Rightarrow> pyval \<Rightarrow> string \<Rightarrow> ('w, pyval) nb" where
  "py_getattr ext (PObj h) a = ext_call ext (GetAttr (PObj h) a)"
| "py_getattr ext _ a = raise AttributeError"

text \<open>
  \<^verbatim>\<open>v[k]\<close>. A list or a string is indexed by an integer, a negative one counting from the
  end, out of range raising \<^verbatim>\<open>IndexError\<close>; \<^verbatim>\<open>True\<close> and \<^verbatim>\<open>False\<close> index as 1 and 0. A
  dict (its keys are strings here) raises \<^verbatim>\<open>KeyError\<close> for a key it does not have and
  \<^verbatim>\<open>TypeError\<close> for a list or a dict as key. A library object answers through \<open>ext\<close>.
\<close>

definition py_nth :: "'a list \<Rightarrow> int \<Rightarrow> error + 'a" where
  "py_nth xs i =
     (if 0 \<le> i \<and> i < int (length xs) then Inr (xs ! nat i)
      else if i < 0 \<and> - int (length xs) \<le> i then Inr (xs ! nat (int (length xs) + i))
      else Inl IndexError)"

definition lift :: "error + 'a \<Rightarrow> ('w, 'a) nb" where
  "lift r = (\<lambda>k. (r, k))"

fun subscript :: "'w ext \<Rightarrow> pyval \<Rightarrow> pyval \<Rightarrow> ('w, pyval) nb" where
  "subscript ext (PList xs) (PInt i) = lift (py_nth xs i)"
| "subscript ext (PList xs) (PBool b) = lift (py_nth xs (if b then 1 else 0))"
| "subscript ext (PList xs) _ = raise TypeError"
| "subscript ext (PStr s) (PInt i) = lift (map_sum id (\<lambda>c. PStr [c]) (py_nth s i))"
| "subscript ext (PStr s) (PBool b) =
     lift (map_sum id (\<lambda>c. PStr [c]) (py_nth s (if b then 1 else 0)))"
| "subscript ext (PStr s) _ = raise TypeError"
| "subscript ext (PDict d) (PStr key) =
     (case map_of d key of None \<Rightarrow> raise KeyError | Some v \<Rightarrow> ret v)"
| "subscript ext (PDict d) (PList _) = raise TypeError"
| "subscript ext (PDict d) (PDict _) = raise TypeError"
| "subscript ext (PDict d) _ = raise KeyError"
| "subscript ext (PObj h) key = ext_call ext (GetItem (PObj h) key)"
| "subscript ext _ key = raise TypeError"

text \<open>
  The items a \<^verbatim>\<open>for\<close> loop or \<^verbatim>\<open>zip\<close> draws from a value: the elements of a list, the
  keys of a dict, the characters of a string. A library object is asked once for all its
  items. Anything else is not iterable.
\<close>

fun iterate :: "'w ext \<Rightarrow> pyval \<Rightarrow> ('w, pyval list) nb" where
  "iterate ext (PList xs) = ret xs"
| "iterate ext (PDict d) = ret (map (\<lambda>(key, _). PStr key) d)"
| "iterate ext (PStr s) = ret (map (\<lambda>c. PStr [c]) s)"
| "iterate ext (PObj h) =
     nb_bind (ext_call ext (Iterate (PObj h)))
       (\<lambda>r. case r of PList xs \<Rightarrow> ret xs | _ \<Rightarrow> raise TypeError)"
| "iterate ext _ = raise TypeError"

fun for_each :: "'a list \<Rightarrow> ('a \<Rightarrow> ('w, unit) nb) \<Rightarrow> ('w, unit) nb" where
  "for_each [] body = ret ()"
| "for_each (x # xs) body = nb_seq (body x) (for_each xs body)"

fun collect :: "'a list \<Rightarrow> ('a \<Rightarrow> ('w, 'b) nb) \<Rightarrow> ('w, 'b list) nb" where
  "collect [] f = ret []"
| "collect (x # xs) f = nb_bind (f x) (\<lambda>y. nb_bind (collect xs f) (\<lambda>ys. ret (y # ys)))"

definition py_print :: "frag list \<Rightarrow> ('w, unit) nb" where
  "py_print line = (\<lambda>k. (Inr (), k\<lparr>stdout := stdout k @ [line]\<rparr>))"

text \<open>The value of a cell's last expression is displayed as \<^verbatim>\<open>Out[n]\<close> unless it is \<^verbatim>\<open>None\<close>.\<close>

definition display :: "nat \<Rightarrow> pyval \<Rightarrow> ('w, unit) nb" where
  "display n v = (\<lambda>k. (Inr (), if v = PNone then k else k\<lparr>shown := shown k @ [(n, v)]\<rparr>))"

section \<open>Notebook A: the tool-calling weather agent\<close>

text \<open>
  The code cells of \<^verbatim>\<open>part_000\<close>, in the order of their execution counts. A cell that binds
  a variable a later cell reads returns it; a cell that reads one takes it as an argument.
  \<^verbatim>\<open>
  In [1]: from dotenv import load_dotenv
          load_dotenv()
  In [2]: import logging
          logging.basicConfig(level=logging.INFO)
  \<close>
\<close>

definition A_cell1 :: "'w ext \<Rightarrow> ('w, unit) nb" where
  "A_cell1 ext =
     nb_seq (import_names ext ''dotenv'' [''load_dotenv''])
    (nb_bind (py_call ext (imported ''dotenv'' ''load_dotenv'') [] [])
    (display 1))"

definition A_cell2 :: "'w ext \<Rightarrow> ('w, unit) nb" where
  "A_cell2 ext =
     nb_seq (import_module ext ''logging'')
    (nb_bind (py_getattr ext (module ''logging'') ''INFO'') (\<lambda>level.
     nb_bind (py_method ext (module ''logging'') ''basicConfig'' [] [(''level'', level)])
    (display 2)))"

text \<open>
  \<^verbatim>\<open>
  In [3]: from dapr_agents import tool
          from pydantic import BaseModel, Field

          class GetWeatherSchema(BaseModel):
              location: str = Field(description="location to get weather for")

          @tool(args_model=GetWeatherSchema)
          def get_weather(location: str) -> str: ...

          class JumpSchema(BaseModel):
              distance: str = Field(description="Distance for agent to jump")

          @tool(args_model=JumpSchema)
          def jump(distance: str) -> str: ...

          tools = [get_weather,jump]
  \<close>
  A decorated definition evaluates the decorator expression, defines the function, and
  binds the name to what the decorator returns for the function.
\<close>

definition A_cell3 :: "'w ext \<Rightarrow> ('w, pyval) nb" where
  "A_cell3 ext =
     nb_seq (import_names ext ''dapr_agents'' [''tool''])
    (nb_seq (import_names ext ''pydantic'' [''BaseModel'', ''Field''])
    (nb_bind (py_call ext (imported ''pydantic'' ''Field'') []
                [(''description'', PStr ''location to get weather for'')]) (\<lambda>location.
     nb_bind (class_def ext ''GetWeatherSchema'' [imported ''pydantic'' ''BaseModel'']
                [(''location'', ''str'', location)]) (\<lambda>GetWeatherSchema.
     nb_bind (py_call ext (imported ''dapr_agents'' ''tool'') []
                [(''args_model'', GetWeatherSchema)]) (\<lambda>decorator.
     nb_bind (py_call ext decorator [PFun Fn_get_weather] []) (\<lambda>get_weather_tool.
     nb_bind (py_call ext (imported ''pydantic'' ''Field'') []
                [(''description'', PStr ''Distance for agent to jump'')]) (\<lambda>distance.
     nb_bind (class_def ext ''JumpSchema'' [imported ''pydantic'' ''BaseModel'']
                [(''distance'', ''str'', distance)]) (\<lambda>JumpSchema.
     nb_bind (py_call ext (imported ''dapr_agents'' ''tool'') []
                [(''args_model'', JumpSchema)]) (\<lambda>decorator.
     nb_bind (py_call ext decorator [PFun Fn_jump] []) (\<lambda>jump_tool.
     ret (PList [get_weather_tool, jump_tool])))))))))))"

text \<open>
  \<^verbatim>\<open>
  In [4]: from dapr_agents import ReActAgent
          AIAgent = ReActAgent(name="Rob", role= "Weather Assistant", tools=tools)
  In [5]: AIAgent.prompt_template
  In [6]: AIAgent.tools[0].name
  \<close>
\<close>

definition A_cell4 :: "'w ext \<Rightarrow> pyval \<Rightarrow> ('w, pyval) nb" where
  "A_cell4 ext tools =
     nb_seq (import_names ext ''dapr_agents'' [''ReActAgent''])
    (py_call ext (imported ''dapr_agents'' ''ReActAgent'') []
       [(''name'', PStr ''Rob''), (''role'', PStr ''Weather Assistant''), (''tools'', tools)])"

definition A_cell5 :: "'w ext \<Rightarrow> pyval \<Rightarrow> ('w, unit) nb" where
  "A_cell5 ext AIAgent = nb_bind (py_getattr ext AIAgent ''prompt_template'') (display 5)"

definition A_cell6 :: "'w ext \<Rightarrow> pyval \<Rightarrow> ('w, unit) nb" where
  "A_cell6 ext AIAgent =
     nb_bind (py_getattr ext AIAgent ''tools'') (\<lambda>ts.
     nb_bind (subscript ext ts (PInt 0)) (\<lambda>t.
     nb_bind (py_getattr ext t ''name'')
    (display 6)))"

text \<open>
  \<^verbatim>\<open>
  In [7]:  AIAgent.run("Hi my name is Roberto")
  In [8]:  AIAgent.chat_history
  In [9]:  AIAgent.run("What is the weather in Virgina, New York and Washington DC?")
  In [10]: AIAgent.run("What places did you already help me with the weather?")
  In [11]: AIAgent.chat_history
  \<close>
\<close>

definition prompt1 :: string where
  "prompt1 = ''Hi my name is Roberto''"

definition prompt2 :: string where
  "prompt2 = ''What is the weather in Virgina, New York and Washington DC?''"

definition prompt3 :: string where
  "prompt3 = ''What places did you already help me with the weather?''"

definition A_cell7 :: "'w ext \<Rightarrow> pyval \<Rightarrow> ('w, unit) nb" where
  "A_cell7 ext AIAgent = nb_bind (py_method ext AIAgent ''run'' [PStr prompt1] []) (display 7)"

definition A_cell8 :: "'w ext \<Rightarrow> pyval \<Rightarrow> ('w, unit) nb" where
  "A_cell8 ext AIAgent = nb_bind (py_getattr ext AIAgent ''chat_history'') (display 8)"

definition A_cell9 :: "'w ext \<Rightarrow> pyval \<Rightarrow> ('w, unit) nb" where
  "A_cell9 ext AIAgent = nb_bind (py_method ext AIAgent ''run'' [PStr prompt2] []) (display 9)"

definition A_cell10 :: "'w ext \<Rightarrow> pyval \<Rightarrow> ('w, unit) nb" where
  "A_cell10 ext AIAgent = nb_bind (py_method ext AIAgent ''run'' [PStr prompt3] []) (display 10)"

definition A_cell11 :: "'w ext \<Rightarrow> pyval \<Rightarrow> ('w, unit) nb" where
  "A_cell11 ext AIAgent = nb_bind (py_getattr ext AIAgent ''chat_history'') (display 11)"

text \<open>The notebook: its cells one after the other, the first exception ending the run.\<close>

definition notebook_A :: "'w ext \<Rightarrow> ('w, unit) nb" where
  "notebook_A ext =
     nb_seq (A_cell1 ext)
    (nb_seq (A_cell2 ext)
    (nb_bind (A_cell3 ext) (\<lambda>tools.
     nb_bind (A_cell4 ext tools) (\<lambda>AIAgent.
     nb_seq (A_cell5 ext AIAgent)
    (nb_seq (A_cell6 ext AIAgent)
    (nb_seq (A_cell7 ext AIAgent)
    (nb_seq (A_cell8 ext AIAgent)
    (nb_seq (A_cell9 ext AIAgent)
    (nb_seq (A_cell10 ext AIAgent)
            (A_cell11 ext AIAgent))))))))))"

section \<open>The execution recorded in notebook A\<close>

text \<open>
  The notebook file keeps, for each cell, what its execution displayed (\<^verbatim>\<open>Out[n]\<close>) and
  what the libraries logged on standard error meanwhile. A session is a world made of such a
  record: the replies still to come, each with the lines logged while it was computed, and
  the lines logged so far. The handler \<open>scripted\<close> answers every request with the next
  reply of the script.
\<close>

record session =
  script :: "(string list \<times> reply) list"
  stderr :: "string list"

definition scripted :: "session ext" where
  "scripted c s =
     (case script s of
        [] \<Rightarrow> (Inl (LibraryError ''no reply''), s)
      | (logged, r) # rest \<Rightarrow> (r, s\<lparr>script := rest, stderr := stderr s @ logged\<rparr>))"

definition session_of :: "(string list \<times> reply) list \<Rightarrow> session" where
  "session_of rs = \<lparr>script = rs, stderr = []\<rparr>"

text \<open>
  The values displayed by the recorded execution of notebook A, transcribed from the
  outputs of its cells 1 and 6 to 11. \<^verbatim>\<open>Out[5]\<close> is the printed form of a library object,
  kept as a handle.
\<close>

definition A_out1 :: pyval where
  "A_out1 =
     PBool True"

definition A_out6 :: pyval where
  "A_out6 =
     PStr ''GetWeather''"

definition A_out7 :: pyval where
  "A_out7 =
     PStr ''Hello Roberto! How can I assist you today with the weather?''"

definition A_out8 :: pyval where
  "A_out8 =
     PList
       [PDict [(''role'', PStr ''user''),
                 (''content'', PStr ''Hi my name is Roberto'')],
        PDict [(''content'', PStr ''Hello Roberto! How can I assist you today with the weather?''),
                 (''role'', PStr ''assistant'')]]"

definition A_out9 :: pyval where
  "A_out9 =
     PStr (''The current weather is as follows:'' @ [CHR 0x0A] @ ''- Virginia: 74'' @ [CHR 0xB0] @ ''F'' @ [CHR 0x0A] @ ''- New York: 65'' @ [CHR 0xB0] @ ''F'' @ [CHR 0x0A] @ ''- Washington, D.C.: 66'' @ [CHR 0xB0] @ ''F'')"

definition A_out10 :: pyval where
  "A_out10 =
     PStr ''I helped you with the weather for Virginia, New York, and Washington, D.C.''"

definition A_out11 :: pyval where
  "A_out11 =
     PList
       [PDict [(''role'', PStr ''user''),
                 (''content'', PStr ''Hi my name is Roberto'')],
        PDict [(''content'', PStr ''Hello Roberto! How can I assist you today with the weather?''),
                 (''role'', PStr ''assistant'')],
        PDict [(''role'', PStr ''user''),
                 (''content'', PStr ''What is the weather in Virgina, New York and Washington DC?'')],
        PDict [(''content'', PStr (''The current weather is as follows:'' @ [CHR 0x0A] @ ''- Virginia: 74'' @ [CHR 0xB0] @ ''F'' @ [CHR 0x0A] @ ''- New York: 65'' @ [CHR 0xB0] @ ''F'' @ [CHR 0x0A] @ ''- Washington, D.C.: 66'' @ [CHR 0xB0] @ ''F'')),
                 (''role'', PStr ''assistant'')],
        PDict [(''role'', PStr ''user''),
                 (''content'', PStr ''What places did you already help me with the weather?'')],
        PDict [(''content'', PStr ''I helped you with the weather for Virginia, New York, and Washington, D.C.''),
                 (''role'', PStr ''assistant'')]]"

text \<open>The lines logged on standard error by the cells 4, 7, 9 and 10 (the other cells logged none).\<close>

definition A_log4 :: "string list" where
  "A_log4 =
     [''INFO:dapr_agents.llm.openai.client.base:Initializing OpenAI client...'',
      ''INFO:dapr_agents.tool.executor:Tool registered: GetWeather'',
      ''INFO:dapr_agents.tool.executor:Tool registered: Jump'',
      ''INFO:dapr_agents.tool.executor:Tool Executor initialized with 2 registered tools.'',
      ''INFO:dapr_agents.agent.base:Constructing system_prompt from agent attributes.'',
      ''INFO:dapr_agents.agent.base:Using system_prompt to create the prompt template.'',
      ''INFO:dapr_agents.agent.base:Pre-filled prompt template with attributes: ['name', 'role', 'goal']'']"

definition A_log7 :: "string list" where
  "A_log7 =
     [''INFO:dapr_agents.agent.base:Pre-filled prompt template with variables: dict_keys(['chat_history'])'',
      ''INFO:dapr_agents.agent.patterns.react.base:Iteration 1/10 started.'',
      ''INFO:dapr_agents.llm.openai.chat:Invoking ChatCompletion API.'',
      ''INFO:httpx:HTTP Request: POST https://api.openai.com/v1/chat/completions '' @ [CHR 0x22] @ ''HTTP/1.1 200 OK'' @ [CHR 0x22],
      ''INFO:dapr_agents.llm.openai.chat:Chat completion retrieved successfully.'',
      ''INFO:dapr_agents.agent.patterns.react.base:No action specified; continuing with further reasoning.'',
      ''INFO:dapr_agents.agent.patterns.react.base:Iteration 2/10 started.'',
      ''INFO:dapr_agents.llm.openai.chat:Invoking ChatCompletion API.'',
      ''INFO:httpx:HTTP Request: POST https://api.openai.com/v1/chat/completions '' @ [CHR 0x22] @ ''HTTP/1.1 200 OK'' @ [CHR 0x22],
      ''INFO:dapr_agents.llm.openai.chat:Chat completion retrieved successfully.'',
      ''INFO:dapr_agents.agent.patterns.react.base:Agent provided a direct final answer.'']"

definition A_log9 :: "string list" where
  "A_log9 =
     [''INFO:dapr_agents.agent.base:Pre-filled prompt template with variables: dict_keys(['chat_history'])'',
      ''INFO:dapr_agents.agent.patterns.react.base:Iteration 1/10 started.'',
      ''INFO:dapr_agents.llm.openai.chat:Invoking ChatCompletion API.'',
      ''INFO:httpx:HTTP Request: POST https://api.openai.com/v1/chat/completions '' @ [CHR 0x22] @ ''HTTP/1.1 200 OK'' @ [CHR 0x22],
      ''INFO:dapr_agents.llm.openai.chat:Chat completion retrieved successfully.'',
      ''INFO:dapr_agents.agent.patterns.react.base:Executing GetWeather with arguments {'location': 'Virginia'}'',
      ''INFO:dapr_agents.tool.executor:Attempting to execute tool: GetWeather'',
      ''INFO:dapr_agents.tool.executor:Tool 'GetWeather' executed successfully.'',
      ''INFO:dapr_agents.agent.patterns.react.base:Thought:I will need to gather the current weather information for both Virginia and Washington, D.C. by using the GetWeather tool.'',
      ''Action:{'name': 'GetWeather', 'arguments': {'location': 'Virginia'}}'',
      ''Observation:Virginia: 74F.'',
      ''INFO:dapr_agents.agent.patterns.react.base:Iteration 2/10 started.'',
      ''INFO:dapr_agents.llm.openai.chat:Invoking ChatCompletion API.'',
      ''INFO:httpx:HTTP Request: POST https://api.openai.com/v1/chat/completions '' @ [CHR 0x22] @ ''HTTP/1.1 200 OK'' @ [CHR 0x22],
      ''INFO:dapr_agents.llm.openai.chat:Chat completion retrieved successfully.'',
      ''INFO:dapr_agents.agent.patterns.react.base:Executing GetWeather with arguments {'location': 'New York'}'',
      ''INFO:dapr_agents.tool.executor:Attempting to execute tool: GetWeather'',
      ''INFO:dapr_agents.tool.executor:Tool 'GetWeather' executed successfully.'',
      ''INFO:dapr_agents.agent.patterns.react.base:Thought:'',
      ''Action:{'name': 'GetWeather', 'arguments': {'location': 'New York'}}'',
      ''Observation:New York: 65F.'',
      ''INFO:dapr_agents.agent.patterns.react.base:Iteration 3/10 started.'',
      ''INFO:dapr_agents.llm.openai.chat:Invoking ChatCompletion API.'',
      ''INFO:httpx:HTTP Request: POST https://api.openai.com/v1/chat/completions '' @ [CHR 0x22] @ ''HTTP/1.1 200 OK'' @ [CHR 0x22],
      ''INFO:dapr_agents.llm.openai.chat:Chat completion retrieved successfully.'',
      ''INFO:dapr_agents.agent.patterns.react.base:Executing GetWeather with arguments {'location': 'Washington DC'}'',
      ''INFO:dapr_agents.tool.executor:Attempting to execute tool: GetWeather'',
      ''INFO:dapr_agents.tool.executor:Tool 'GetWeather' executed successfully.'',
      ''INFO:dapr_agents.agent.patterns.react.base:Thought:'',
      ''Action:{'name': 'GetWeather', 'arguments': {'location': 'Washington DC'}}'',
      ''Observation:Washington DC: 66F.'',
      ''INFO:dapr_agents.agent.patterns.react.base:Iteration 4/10 started.'',
      ''INFO:dapr_agents.llm.openai.chat:Invoking ChatCompletion API.'',
      ''INFO:httpx:HTTP Request: POST https://api.openai.com/v1/chat/completions '' @ [CHR 0x22] @ ''HTTP/1.1 200 OK'' @ [CHR 0x22],
      ''INFO:dapr_agents.llm.openai.chat:Chat completion retrieved successfully.'',
      ''INFO:dapr_agents.agent.patterns.react.base:Agent provided a direct final answer.'']"

definition A_log10 :: "string list" where
  "A_log10 =
     [''INFO:dapr_agents.agent.base:Pre-filled prompt template with variables: dict_keys(['chat_history'])'',
      ''INFO:dapr_agents.agent.patterns.react.base:Iteration 1/10 started.'',
      ''INFO:dapr_agents.llm.openai.chat:Invoking ChatCompletion API.'',
      ''INFO:httpx:HTTP Request: POST https://api.openai.com/v1/chat/completions '' @ [CHR 0x22] @ ''HTTP/1.1 200 OK'' @ [CHR 0x22],
      ''INFO:dapr_agents.llm.openai.chat:Chat completion retrieved successfully.'',
      ''INFO:dapr_agents.agent.patterns.react.base:No action specified; continuing with further reasoning.'',
      ''INFO:dapr_agents.agent.patterns.react.base:Iteration 2/10 started.'',
      ''INFO:dapr_agents.llm.openai.chat:Invoking ChatCompletion API.'',
      ''INFO:httpx:HTTP Request: POST https://api.openai.com/v1/chat/completions '' @ [CHR 0x22] @ ''HTTP/1.1 200 OK'' @ [CHR 0x22],
      ''INFO:dapr_agents.llm.openai.chat:Chat completion retrieved successfully.'',
      ''INFO:dapr_agents.agent.patterns.react.base:Agent provided a direct final answer.'']"

text \<open>
  The recorded session: one reply for each request of the notebook, in order. Where the
  notebook file shows no value (an import, a class or an object that is bound to a name and
  not displayed) the reply is \<^verbatim>\<open>None\<close> or a handle; \<^verbatim>\<open>logging.INFO\<close> is 20.
\<close>

definition recorded_A :: session where
  "recorded_A = session_of
     [([], Inr PNone),
      ([], Inr A_out1),
      ([], Inr PNone),
      ([], Inr (PInt 20)),
      ([], Inr PNone),
      ([], Inr PNone),
      ([], Inr PNone),
      ([], Inr (PObj ''FieldInfo location'')),
      ([], Inr (PObj ''GetWeatherSchema'')),
      ([], Inr (PObj ''tool decorator for GetWeatherSchema'')),
      ([], Inr (PObj ''AgentTool GetWeather'')),
      ([], Inr (PObj ''FieldInfo distance'')),
      ([], Inr (PObj ''JumpSchema'')),
      ([], Inr (PObj ''tool decorator for JumpSchema'')),
      ([], Inr (PObj ''AgentTool Jump'')),
      ([], Inr PNone),
      (A_log4, Inr (PObj ''ReActAgent Rob'')),
      ([], Inr (PObj ''ChatPromptTemplate'')),
      ([], Inr (PList [PObj ''AgentTool GetWeather'', PObj ''AgentTool Jump''])),
      ([], Inr A_out6),
      (A_log7, Inr A_out7),
      ([], Inr A_out8),
      (A_log9, Inr A_out9),
      (A_log10, Inr A_out10),
      ([], Inr A_out11)]"

text \<open>
  The tools the library logged as registered: the rest of each line that starts with the
  tool executor's registration message.
\<close>

definition registration_prefix :: string where
  "registration_prefix = ''INFO:dapr_agents.tool.executor:Tool registered: ''"

definition registered_tools :: "string list \<Rightarrow> string list" where
  "registered_tools ls =
     map (drop (length registration_prefix)) (filter (prefix registration_prefix) ls)"

text \<open>
  A statement run against a script: with the entries \<open>es\<close> next in the script it has the
  outcome \<open>r\<close> and leaves \<open>rest\<close> of the script; meanwhile the libraries log the lines
  \<open>logged\<close>, the kernel displays \<open>out\<close>, and the requests \<open>reqs\<close> are added to the log.
\<close>

definition scripted_run ::
  "(session, 'a) nb \<Rightarrow> (string list \<times> reply) list \<Rightarrow> error + 'a \<Rightarrow>
     (string list \<times> reply) list \<Rightarrow> string list \<Rightarrow> (nat \<times> pyval) list \<Rightarrow>
     (call \<times> reply) list \<Rightarrow> bool" where
  "scripted_run m es r rest logged out reqs =
     (\<forall>k. script (world k) = es \<longrightarrow>
        (case m k of
           (r', k') \<Rightarrow> r' = r \<and> script (world k') = rest \<and>
             stderr (world k') = stderr (world k) @ logged \<and> shown k' = shown k @ out \<and>
             calls k' = calls k @ reqs))"






section \<open>Notebook B: the Chroma vector store\<close>

















section \<open>The execution recorded in notebook B\<close>

text \<open>
  What the recorded execution of notebook B got back from the store, transcribed from the
  outputs of its cells: the ten documents that \<^verbatim>\<open>In [6]\<close> printed (each a dict with the
  keys \<^verbatim>\<open>id\<close>, \<^verbatim>\<open>metadata\<close> and \<^verbatim>\<open>document\<close>, as \<^verbatim>\<open>In [7]\<close> prints one), the updated
  document of \<^verbatim>\<open>In [7]\<close>, the two fields of the similarity search that \<^verbatim>\<open>In [9]\<close> printed,
  and \<^verbatim>\<open>Out[11]\<close>, \<^verbatim>\<open>Out[12]\<close> and \<^verbatim>\<open>Out[14]\<close>.
\<close>

definition B_retrieved :: pyval where
  "B_retrieved =
     PList [PDict [(''id'', PStr ''483fc189-df92-4815-987e-b732391e356a''),
                   (''metadata'', PDict [(''location'', PStr ''The Shire''), (''topic'', PStr ''wisdom'')]),
                   (''document'', PStr ''Gandalf: A wizard is never late, Frodo Baggins. Nor is he early; he arrives precisely when he means to.'')],
            PDict [(''id'', PStr ''fcbcbf50-7b0c-458a-a232-abbc1b77518b''),
                   (''metadata'', PDict [(''location'', PStr ''Moria''), (''topic'', PStr ''destiny'')]),
                   (''document'', PStr ''Frodo: I wish the Ring had never come to me. I wish none of this had happened.'')],
            PDict [(''id'', PStr ''d4fbda4e-f933-4d1c-8d63-ee4d9f0d0af7''),
                   (''metadata'', PDict [(''location'', PStr ''Rivendell''), (''topic'', PStr ''power'')]),
                   (''document'', PStr ''Aragorn: You cannot wield it! None of us can. The One Ring answers to Sauron alone. It has no other master.'')],
            PDict [(''id'', PStr ''98d218e5-4274-4d93-ac9a-3fbbeb3c0a19''),
                   (''metadata'', PDict [(''location'', PStr ''Mount Doom''),
                           (''topic'', PStr ''friendship'')]),
                   (''document'', PStr ''Sam: I can't carry it for you, but I can carry you!'')],
            PDict [(''id'', PStr ''df9d0abe-0b47-4079-9697-b66f47656e64''),
                   (''metadata'', PDict [(''location'', PStr ''Rohan''), (''topic'', PStr ''war'')]),
                   (''document'', PStr ''Legolas: A red sun rises. Blood has been spilled this night.'')],
            PDict [(''id'', PStr ''309e0971-6826-4bac-81a8-3acfc3a28fa9''),
                   (''metadata'', PDict [(''location'', PStr ''Helm's Deep''), (''topic'', PStr ''bravery'')]),
                   (''document'', PStr ''Gimli: Certainty of death. Small chance of success. What are we waiting for?'')],
            PDict [(''id'', PStr ''a0a312be-bebd-405b-b993-4e37ed7fd569''),
                   (''metadata'', PDict [(''location'', PStr ''Rivendell''),
                           (''topic'', PStr ''impossible tasks'')]),
                   (''document'', PStr ''Boromir: One does not simply walk into Mordor.'')],
            PDict [(''id'', PStr ''0c09f89c-cf60-4428-beee-294b31dfd6a9''),
                   (''metadata'', PDict [(''location'', PStr (''Lothl'' @ [CHR 0xF3] @ ''rien'')),
                           (''topic'', PStr ''hope'')]),
                   (''document'', PStr ''Galadriel: Even the smallest person can change the course of the future.'')],
            PDict [(''id'', PStr ''d4778b45-f9fa-438c-b9e9-7466c872b4cc''),
                   (''metadata'', PDict [(''location'', PStr ''Helm's Deep''), (''topic'', PStr ''battle'')]),
                   (''document'', PStr (''Th'' @ [CHR 0xE9] @ ''oden: So it begins.''))],
            PDict [(''id'', PStr ''7a44e69f-e0c9-41c0-9cdf-a8f34ddf45f5''),
                   (''metadata'', PDict [(''location'', PStr ''Rivendell''), (''topic'', PStr ''sacrifice'')]),
                   (''document'', PStr ''Elrond: The strength of the Ring-bearer is failing. In his heart, Frodo begins to understand. The quest will claim his life.'')]]"

definition B_updated :: pyval where
  "B_updated =
     PList [PDict [(''id'', PStr ''483fc189-df92-4815-987e-b732391e356a''),
                   (''metadata'', PDict [(''location'', PStr ''Fangorn Forest''),
                           (''topic'', PStr ''hope and wisdom'')]),
                   (''document'', PStr ''Gandalf: Even the wisest cannot foresee all ends, but hope remains while the Company is true.'')]]"

definition B_similar :: pyval where
  "B_similar =
     PDict [(''documents'', PList [PList [PStr ''Gandalf: Even the wisest cannot foresee all ends, but hope remains while the Company is true.'',
                           PStr ''Gimli: Certainty of death. Small chance of success. What are we waiting for?'']]),
            (''metadatas'', PList [PList [PDict [(''location'', PStr ''Fangorn Forest''),
                                  (''topic'', PStr ''hope and wisdom'')],
                           PDict [(''location'', PStr ''Helm's Deep''),
                                  (''topic'', PStr ''bravery'')]]])]"

definition B_out11 :: pyval where
  "B_out11 =
     PDict [(''ids'', PList [PList [PStr ''483fc189-df92-4815-987e-b732391e356a'']]),
            (''embeddings'', PNone),
            (''documents'', PList [PList [PStr ''Gandalf: Even the wisest cannot foresee all ends, but hope remains while the Company is true.'']]),
            (''uris'', PNone),
            (''data'', PNone),
            (''metadatas'', PList [PList [PDict [(''location'', PStr ''Fangorn Forest''),
                                  (''topic'', PStr ''hope and wisdom'')]]]),
            (''distances'', PList [PList [PFloat 7907481789588928 (- 16)]]),
            (''included'', PList [PObj ''IncludeEnum.distances'',
                    PObj ''IncludeEnum.documents'',
                    PObj ''IncludeEnum.metadatas''])]"

definition B_out12 :: pyval where
  "B_out12 = PList [PStr ''example_collection'']"

definition B_out14 :: pyval where
  "B_out14 = PList []"

text \<open>
  The session: one reply for each request of the notebook, in order. The recorded
  execution did not run the first cell (the \<^verbatim>\<open>pip\<close> line has no execution count); its
  reply here is \<^verbatim>\<open>None\<close>, as are the replies the notebook file shows no value for, and the
  objects bound to names are handles. The two counts are the numbers \<^verbatim>\<open>In [5]\<close> and
  \<^verbatim>\<open>In [8]\<close> printed.
\<close>

definition recorded_B_replies :: "pyval list" where
  "recorded_B_replies =
     [PNone,
      PNone, PBool True,
      PNone, PObj ''SentenceTransformerEmbedder all-MiniLM-L6-v2'',
      PNone, PObj ''ChromaVectorStore example_collection'',
      PNone,
      PObj ''Document 1'', PObj ''Document 2'', PObj ''Document 3'', PObj ''Document 4'',
      PObj ''Document 5'', PObj ''Document 6'', PObj ''Document 7'', PObj ''Document 8'',
      PObj ''Document 9'', PObj ''Document 10'',
      PNone, PInt 10,
      B_retrieved,
      B_retrieved, PNone, B_updated,
      PNone, PInt 9,
      B_similar,
      B_out11,
      PObj ''chromadb client'', B_out12,
      PNone,
      PObj ''chromadb client'', B_out14]"

definition recorded_B :: session where
  "recorded_B = session_of (map (\<lambda>v. ([], Inr v)) recorded_B_replies)"

section \<open>What a run leaves in the log\<close>

text \<open>
  The log of a run is read in three ways.

  \<open>replay\<close> answers the logged requests one after the other, each in the world the
  previous answer left, and checks that every logged reply is the answer; it yields the
  world after the last one.

  \<open>unhandled\<close> relates the outcome of a run to its log: every request was answered with a
  value, except possibly the last one, and then the exception it was answered with is the
  outcome of the run.

  \<open>events\<close> keeps of each request what a projection \<open>proj\<close> selects, in the order of the
  log.
\<close>

fun replay :: "'w ext \<Rightarrow> 'w \<Rightarrow> (call \<times> reply) list \<Rightarrow> 'w option" where
  "replay ext w [] = Some w"
| "replay ext w ((c, r) # cs) =
     (case ext c w of (r', w') \<Rightarrow> if r' = r then replay ext w' cs else None)"

definition answered :: "(call \<times> reply) list \<Rightarrow> bool" where
  "answered cs = list_all (\<lambda>(c, r). \<not> isl r) cs"

definition unhandled :: "error + 'a \<Rightarrow> (call \<times> reply) list \<Rightarrow> bool" where
  "unhandled r cs =
     (case r of
        Inr _ \<Rightarrow> answered cs
      | Inl e \<Rightarrow> answered cs \<or> (cs \<noteq> [] \<and> answered (butlast cs) \<and> snd (last cs) = Inl e))"

definition events :: "(call \<Rightarrow> 'e list) \<Rightarrow> (call \<times> reply) list \<Rightarrow> 'e list" where
  "events proj cs = concat (map (\<lambda>(c, r). proj c) cs)"

text \<open>
  A statement is \<open>sound\<close> for a list of events \<open>S\<close> when, from any kernel, it only adds to the
  log, what it adds replays from the world it started in to the world it ends in, an
  exception of a request is never handled, and the events it adds are \<open>S\<close> when it
  completes and the beginning of \<open>S\<close> when it raises.
\<close>

definition sound :: "'w ext \<Rightarrow> (call \<Rightarrow> 'e list) \<Rightarrow> ('w, 'a) nb \<Rightarrow> 'e list \<Rightarrow> bool" where
  "sound ext proj m S =
     (\<forall>k. case m k of
        (r, k') \<Rightarrow>
          \<exists>new. calls k' = calls k @ new \<and>
                replay ext (world k) new = Some (world k') \<and>
                unhandled r new \<and>
                (case r of Inr _ \<Rightarrow> events proj new = S | Inl _ \<Rightarrow> prefix (events proj new) S))"

text \<open>
  The events of notebook A: a function of the notebook handed to a decorator (a tool
  declared), the construction of the agent, a call of a method named \<^verbatim>\<open>run\<close> with its
  arguments, and a read of an attribute named \<^verbatim>\<open>chat_history\<close>.
\<close>

datatype A_event =
    Declares fn
  | Constructs
  | Runs "pyval list" "(string \<times> pyval) list"
  | ReadsHistory

definition A_event_of :: "call \<Rightarrow> A_event list" where
  "A_event_of c =
     (case c of
        Apply f args kw \<Rightarrow>
          (case [g. PFun g \<leftarrow> args] of
             [] \<Rightarrow> if f = imported ''dapr_agents'' ''ReActAgent'' then [Constructs] else []
           | gs \<Rightarrow> map Declares gs)
      | Method v m args kw \<Rightarrow> if m = ''run'' then [Runs args kw] else []
      | GetAttr v a \<Rightarrow> if a = ''chat_history'' then [ReadsHistory] else []
      | _ \<Rightarrow> [])"

definition A_events :: "A_event list" where
  "A_events =
     [Declares Fn_get_weather, Declares Fn_jump, Constructs,
      Runs [PStr prompt1] [], ReadsHistory,
      Runs [PStr prompt2] [],
      Runs [PStr prompt3] [], ReadsHistory]"








text \<open>
  The uses of an agent: a call of a method named \<^verbatim>\<open>run\<close>, with its receiver and its
  arguments, and a read of an attribute named \<^verbatim>\<open>chat_history\<close>, with its receiver.
\<close>

datatype agent_use =
    Run pyval "pyval list" "(string \<times> pyval) list"
  | History pyval

definition agent_use_of :: "call \<Rightarrow> agent_use list" where
  "agent_use_of c =
     (case c of
        Method v m args kw \<Rightarrow> if m = ''run'' then [Run v args kw] else []
      | GetAttr v a \<Rightarrow> if a = ''chat_history'' then [History v] else []
      | _ \<Rightarrow> [])"

text \<open>The arguments and the reply of each call of a method named \<^verbatim>\<open>run\<close>, in order.\<close>

definition run_exchanges :: "(call \<times> reply) list \<Rightarrow> (pyval list \<times> reply) list" where
  "run_exchanges cs =
     concat (map (\<lambda>(c, r). case c of
                               Method v m args kw \<Rightarrow> if m = ''run'' then [(args, r)] else []
                             | _ \<Rightarrow> []) cs)"






text \<open>
  Two sessions in which a library raises: the beginning of each recorded session, up to
  the construction of the agent, respectively of the store, which is answered with an
  exception.
\<close>

definition refused_A :: session where
  "refused_A = session_of
     [([], Inr PNone),
      ([], Inr A_out1),
      ([], Inr PNone),
      ([], Inr (PInt 20)),
      ([], Inr PNone),
      ([], Inr PNone),
      ([], Inr PNone),
      ([], Inr (PObj ''FieldInfo location'')),
      ([], Inr (PObj ''GetWeatherSchema'')),
      ([], Inr (PObj ''tool decorator for GetWeatherSchema'')),
      ([], Inr (PObj ''AgentTool GetWeather'')),
      ([], Inr (PObj ''FieldInfo distance'')),
      ([], Inr (PObj ''JumpSchema'')),
      ([], Inr (PObj ''tool decorator for JumpSchema'')),
      ([], Inr (PObj ''AgentTool Jump'')),
      ([], Inr PNone),
      ([], Inl (LibraryError ''no API key''))]"

definition refused_B :: session where
  "refused_B = session_of
     [([], Inr PNone),
      ([], Inr PNone),
      ([], Inr (PBool True)),
      ([], Inr PNone),
      ([], Inr (PObj ''SentenceTransformerEmbedder all-MiniLM-L6-v2'')),
      ([], Inr PNone),
      ([], Inl (LibraryError ''connection refused''))]"

section \<open>A model of the agent library\<close>
















section \<open>Reasoning about the log, statement by statement\<close>

lemma replay_append:
  "replay ext w (xs @ ys) = (case replay ext w xs of None \<Rightarrow> None | Some w' \<Rightarrow> replay ext w' ys)"
  by (induction xs arbitrary: w) (auto split: prod.splits)

lemma answered_simps [simp]:
  "answered []"
  "answered ((c, r) # cs) = (\<not> isl r \<and> answered cs)"
  "answered (xs @ ys) = (answered xs \<and> answered ys)"
  by (auto simp: answered_def)

lemma events_simps [simp]:
  "events proj [] = []"
  "events proj ((c, r) # cs) = proj c @ events proj cs"
  "events proj (xs @ ys) = events proj xs @ events proj ys"
  by (auto simp: events_def)

lemma soundI:
  assumes "\<And>k r k'. m k = (r, k') \<Longrightarrow>
     \<exists>new. calls k' = calls k @ new \<and> replay ext (world k) new = Some (world k') \<and>
       unhandled r new \<and>
       (case r of Inr _ \<Rightarrow> events proj new = S | Inl _ \<Rightarrow> prefix (events proj new) S)"
  shows "sound ext proj m S"
  using assms by (auto simp: sound_def split: prod.splits)

lemma soundD:
  assumes "sound ext proj m S" and "m k = (r, k')"
  shows "\<exists>new. calls k' = calls k @ new \<and> replay ext (world k) new = Some (world k') \<and>
       unhandled r new \<and>
       (case r of Inr _ \<Rightarrow> events proj new = S | Inl _ \<Rightarrow> prefix (events proj new) S)"
proof -
  from assms(1) have "case m k of (r, k') \<Rightarrow>
     \<exists>new. calls k' = calls k @ new \<and> replay ext (world k) new = Some (world k') \<and>
       unhandled r new \<and>
       (case r of Inr _ \<Rightarrow> events proj new = S | Inl _ \<Rightarrow> prefix (events proj new) S)"
    unfolding sound_def by (rule spec)
  with assms(2) show ?thesis by simp
qed

lemma sound_ret: "sound ext proj (ret x) []"
  by (rule soundI) (auto simp: ret_def unhandled_def)

lemma sound_raise: "sound ext proj (raise e) S"
  by (rule soundI) (auto simp: raise_def unhandled_def)

lemma sound_lift: "sound ext proj (lift r) []"
  by (rule soundI) (auto simp: lift_def unhandled_def split: sum.splits)

lemma sound_py_print: "sound ext proj (py_print l) []"
  by (rule soundI) (auto simp: py_print_def unhandled_def)

lemma sound_display: "sound ext proj (display n v) []"
  by (rule soundI) (auto simp: display_def unhandled_def)

lemma sound_ext_call: "sound ext proj (ext_call ext c) (proj c)"
  by (rule soundI) (auto simp: ext_call_def unhandled_def split: prod.splits sum.splits)

lemma unhandled_append:
  "answered xs \<Longrightarrow> unhandled r ys \<Longrightarrow> unhandled r (xs @ ys)"
  by (cases r) (auto simp: unhandled_def butlast_append)

lemma sound_bind:
  assumes m: "sound ext proj m S1" and f: "\<And>x. sound ext proj (f x) S2"
  shows "sound ext proj (nb_bind m f) (S1 @ S2)"
proof (rule soundI)
  fix k r k''
  assume run: "nb_bind m f k = (r, k'')"
  obtain r1 k' where mk: "m k = (r1, k')" by (cases "m k")
  from soundD [OF m mk] obtain new1 where
    n1: "calls k' = calls k @ new1" "replay ext (world k) new1 = Some (world k')"
      "unhandled r1 new1"
      "case r1 of Inr _ \<Rightarrow> events proj new1 = S1 | Inl _ \<Rightarrow> prefix (events proj new1) S1"
    by blast
  show "\<exists>new. calls k'' = calls k @ new \<and> replay ext (world k) new = Some (world k'') \<and>
       unhandled r new \<and>
       (case r of Inr _ \<Rightarrow> events proj new = S1 @ S2 | Inl _ \<Rightarrow> prefix (events proj new) (S1 @ S2))"
  proof (cases r1)
    case (Inl e)
    with run mk have "r = Inl e" "k'' = k'" by (auto simp: nb_bind_def)
    with n1 Inl show ?thesis by (auto simp: unhandled_def)
  next
    case (Inr x)
    with run mk have fx: "f x k' = (r, k'')" by (auto simp: nb_bind_def)
    from soundD [OF f fx] obtain new2 where
      n2: "calls k'' = calls k' @ new2" "replay ext (world k') new2 = Some (world k'')"
        "unhandled r new2"
        "case r of Inr _ \<Rightarrow> events proj new2 = S2 | Inl _ \<Rightarrow> prefix (events proj new2) S2"
      by blast
    from n1 Inr have a1: "answered new1" and e1: "events proj new1 = S1"
      by (auto simp: unhandled_def)
    have "calls k'' = calls k @ (new1 @ new2)" using n1 n2 by simp
    moreover have "replay ext (world k) (new1 @ new2) = Some (world k'')"
      using n1 n2 by (simp add: replay_append)
    moreover have "unhandled r (new1 @ new2)" using a1 n2 by (simp add: unhandled_append)
    moreover have "case r of Inr _ \<Rightarrow> events proj (new1 @ new2) = S1 @ S2
       | Inl _ \<Rightarrow> prefix (events proj (new1 @ new2)) (S1 @ S2)"
      using e1 n2 by (auto split: sum.splits)
    ultimately show ?thesis by blast
  qed
qed

lemma sound_seq:
  "sound ext proj m S1 \<Longrightarrow> sound ext proj n S2 \<Longrightarrow> sound ext proj (nb_seq m n) (S1 @ S2)"
  unfolding nb_seq_def by (rule sound_bind)

lemma sound_eq: "sound ext proj m S' \<Longrightarrow> S' = S \<Longrightarrow> sound ext proj m S"
  by simp

lemma sound_request: "proj c = S \<Longrightarrow> sound ext proj (ext_call ext c) S"
  using sound_ext_call [of ext proj c] by simp

lemma sound_import_module: "proj (Import m) = S \<Longrightarrow> sound ext proj (import_module ext m) S"
  unfolding import_module_def
  using sound_bind [OF sound_ext_call sound_ret, of ext proj "Import m"] by simp

lemma sound_import_names:
  "proj (ImportFrom m ns) = S \<Longrightarrow> sound ext proj (import_names ext m ns) S"
  unfolding import_names_def
  using sound_bind [OF sound_ext_call sound_ret, of ext proj "ImportFrom m ns"] by simp

lemma sound_shell: "proj (Shell cmd) = S \<Longrightarrow> sound ext proj (shell ext cmd) S"
  unfolding shell_def
  using sound_bind [OF sound_ext_call sound_ret, of ext proj "Shell cmd"] by simp

lemma sound_class_def:
  "proj (ClassDef n bs body) = S \<Longrightarrow> sound ext proj (class_def ext n bs body) S"
  unfolding class_def_def by (rule sound_request)

lemma sound_py_call:
  "proj (Apply f args kw) = S \<Longrightarrow> sound ext proj (py_call ext f args kw) S"
  by (cases f) (auto intro: sound_ext_call sound_raise)

lemma sound_py_method:
  "proj (Method v m args kw) = S \<Longrightarrow> sound ext proj (py_method ext v m args kw) S"
  by (cases v) (auto intro: sound_ext_call sound_raise)

lemma sound_py_getattr:
  "proj (GetAttr v a) = S \<Longrightarrow> sound ext proj (py_getattr ext v a) S"
  by (cases v) (auto intro: sound_ext_call sound_raise)

lemma sound_subscript:
  assumes "\<And>v key. proj (GetItem v key) = []"
  shows "sound ext proj (subscript ext v key) []"
proof (induction ext v key rule: subscript.induct)
  case (11 ext h key)
  show ?case using sound_ext_call [of ext proj "GetItem (PObj h) key"] assms by simp
qed (auto intro: sound_lift sound_raise sound_ret split: option.splits)

lemma sound_iterate:
  assumes "\<And>v. proj (Iterate v) = []"
  shows "sound ext proj (iterate ext v) []"
proof (cases v)
  case (PObj h)
  have "sound ext proj (nb_bind (ext_call ext (Iterate (PObj h)))
       (\<lambda>r. case r of PList xs \<Rightarrow> ret xs | _ \<Rightarrow> raise TypeError)) (proj (Iterate (PObj h)) @ [])"
    by (intro sound_bind sound_ext_call) (auto intro: sound_ret sound_raise split: pyval.splits)
  with PObj assms show ?thesis by simp
qed (auto intro: sound_ret sound_raise)

lemma sound_for_each:
  assumes "\<And>x. sound ext proj (body x) []"
  shows "sound ext proj (for_each xs body) []"
proof (induction xs)
  case Nil
  show ?case by (simp add: sound_ret)
next
  case (Cons x xs)
  have "sound ext proj (nb_seq (body x) (for_each xs body)) ([] @ [])"
    by (intro sound_seq assms Cons)
  then show ?case by simp
qed

lemma sound_collect:
  assumes "\<And>x. sound ext proj (f x) (S x)"
  shows "sound ext proj (collect xs f) (concat (map S xs))"
proof (induction xs)
  case Nil
  show ?case by (simp add: sound_ret)
next
  case (Cons x xs)
  have "sound ext proj (nb_bind (f x) (\<lambda>y. nb_bind (collect xs f) (\<lambda>ys. ret (y # ys))))
     (S x @ (concat (map S xs) @ []))"
    by (intro sound_bind assms Cons sound_ret)
  then show ?case by simp
qed

lemma sound_case_prod:
  assumes "\<And>a b. sound ext proj (f a b) S"
  shows "sound ext proj (case p of (a, b) \<Rightarrow> f a b) S"
  using assms by (cases p) simp

lemma sound_bind_Nil:
  "sound ext proj m [] \<Longrightarrow> (\<And>x. sound ext proj (f x) []) \<Longrightarrow> sound ext proj (nb_bind m f) []"
  using sound_bind [of ext proj m "[]" f "[]"] by simp

lemma sound_seq_Nil:
  "sound ext proj m [] \<Longrightarrow> sound ext proj n [] \<Longrightarrow> sound ext proj (nb_seq m n) []"
  using sound_seq [of ext proj m "[]" n "[]"] by simp

lemmas sound_rules =
  sound_bind sound_seq sound_ret sound_raise sound_lift sound_py_print sound_display
  sound_request sound_import_module sound_import_names sound_shell sound_class_def
  sound_py_call sound_py_method sound_py_getattr sound_subscript sound_iterate
  sound_for_each sound_collect sound_case_prod sound_bind_Nil sound_seq_Nil

section \<open>Running a notebook against a script\<close>

lemma scripted_runD:
  assumes "scripted_run m es r rest l out reqs" and "script (world k) = es" and "m k = (r', k')"
  shows "r' = r \<and> script (world k') = rest \<and> stderr (world k') = stderr (world k) @ l \<and>
         shown k' = shown k @ out \<and> calls k' = calls k @ reqs"
proof -
  from assms(1) have "script (world k) = es \<longrightarrow>
     (case m k of (r', k') \<Rightarrow> r' = r \<and> script (world k') = rest \<and>
        stderr (world k') = stderr (world k) @ l \<and> shown k' = shown k @ out \<and>
        calls k' = calls k @ reqs)"
    unfolding scripted_run_def by (rule spec)
  with assms(2,3) show ?thesis by simp
qed

lemma scripted_runI:
  assumes "\<And>k r' k'. script (world k) = es \<Longrightarrow> m k = (r', k') \<Longrightarrow>
     r' = r \<and> script (world k') = rest \<and> stderr (world k') = stderr (world k) @ l \<and>
     shown k' = shown k @ out \<and> calls k' = calls k @ reqs"
  shows "scripted_run m es r rest l out reqs"
  unfolding scripted_run_def
proof (intro allI impI)
  fix k :: "session kernel"
  assume es: "script (world k) = es"
  obtain r' k' where run: "m k = (r', k')" by (cases "m k")
  from assms [OF es run] run
  show "case m k of (r', k') \<Rightarrow> r' = r \<and> script (world k') = rest \<and>
        stderr (world k') = stderr (world k) @ l \<and> shown k' = shown k @ out \<and>
        calls k' = calls k @ reqs"
    by simp
qed

lemma sr_ret: "scripted_run (ret x) es (Inr x) es [] [] []"
  by (simp add: scripted_run_def ret_def)

lemma sr_raise: "scripted_run (raise e) es (Inl e) es [] [] []"
  by (simp add: scripted_run_def raise_def)

lemma sr_lift: "scripted_run (lift r) es r es [] [] []"
  by (simp add: scripted_run_def lift_def)

lemma sr_py_print: "scripted_run (py_print l) es (Inr ()) es [] [] []"
  by (simp add: scripted_run_def py_print_def)

lemma sr_display_None: "scripted_run (display n PNone) es (Inr ()) es [] [] []"
  by (simp add: scripted_run_def display_def)

lemma sr_display:
  "(v \<noteq> PNone) = True \<Longrightarrow> scripted_run (display n v) es (Inr ()) es [] [(n, v)] []"
  by (simp add: scripted_run_def display_def)

lemma sr_ext_call: "scripted_run (ext_call scripted c) ((ls, r) # es) r es ls [] [(c, r)]"
  by (simp add: scripted_run_def ext_call_def scripted_def)

lemma sr_bind:
  assumes m: "scripted_run m es r1 es1 l1 o1 q1"
    and f: "case r1 of Inr x \<Rightarrow> scripted_run (f x) es1 r es2 l2 o2 q2
         | Inl e \<Rightarrow> r = Inl e \<and> es2 = es1 \<and> l2 = [] \<and> o2 = [] \<and> q2 = []"
  shows "scripted_run (nb_bind m f) es r es2 (l1 @ l2) (o1 @ o2) (q1 @ q2)"
proof (rule scripted_runI)
  fix k r' k''
  assume es: "script (world k) = es" and run: "nb_bind m f k = (r', k'')"
  obtain ra k' where mk: "m k = (ra, k')" by (cases "m k")
  note d1 = scripted_runD [OF m es mk]
  show "r' = r \<and> script (world k'') = es2 \<and> stderr (world k'') = stderr (world k) @ l1 @ l2 \<and>
        shown k'' = shown k @ o1 @ o2 \<and> calls k'' = calls k @ q1 @ q2"
  proof (cases r1)
    case (Inl e)
    with d1 have "ra = Inl e" by simp
    with run mk have "r' = Inl e" "k'' = k'" by (simp_all add: nb_bind_def)
    with d1 f Inl show ?thesis by simp
  next
    case (Inr x)
    with d1 have "ra = Inr x" by simp
    with run mk have fx: "f x k' = (r', k'')" by (simp add: nb_bind_def)
    from f Inr have f': "scripted_run (f x) es1 r es2 l2 o2 q2" by simp
    from d1 have es1: "script (world k') = es1" by simp
    from scripted_runD [OF f' es1 fx] d1 show ?thesis by simp
  qed
qed

lemma sr_seq:
  assumes "scripted_run m es r1 es1 l1 o1 q1"
    and "case r1 of Inr x \<Rightarrow> scripted_run n es1 r es2 l2 o2 q2
         | Inl e \<Rightarrow> r = Inl e \<and> es2 = es1 \<and> l2 = [] \<and> o2 = [] \<and> q2 = []"
  shows "scripted_run (nb_seq m n) es r es2 (l1 @ l2) (o1 @ o2) (q1 @ q2)"
  unfolding nb_seq_def using assms by (rule sr_bind)

lemma sr_unit:
  assumes "scripted_run m es r1 es1 l out q"
    and "map_sum id (\<lambda>_. ()) r1 = r"
  shows "scripted_run (nb_bind m (\<lambda>_. ret ())) es r es1 l out q"
proof -
  have "scripted_run (nb_bind m (\<lambda>_. ret ())) es r es1 (l @ []) (out @ []) (q @ [])"
  proof (rule sr_bind [OF assms(1)])
    show "case r1 of Inr x \<Rightarrow> scripted_run (ret ()) es1 r es1 [] [] []
          | Inl e \<Rightarrow> r = Inl e \<and> es1 = es1 \<and> [] = [] \<and> [] = [] \<and> [] = []"
      using assms(2) by (cases r1) (auto simp: sr_ret)
  qed
  then show ?thesis by simp
qed

lemma sr_import_module:
  "map_sum id (\<lambda>_. ()) r = r' \<Longrightarrow>
   scripted_run (import_module scripted m) ((ls, r) # es) r' es ls [] [(Import m, r)]"
  unfolding import_module_def by (rule sr_unit [OF sr_ext_call])

lemma sr_import_names:
  "map_sum id (\<lambda>_. ()) r = r' \<Longrightarrow>
   scripted_run (import_names scripted m ns) ((ls, r) # es) r' es ls [] [(ImportFrom m ns, r)]"
  unfolding import_names_def by (rule sr_unit [OF sr_ext_call])

lemma sr_shell:
  "map_sum id (\<lambda>_. ()) r = r' \<Longrightarrow>
   scripted_run (shell scripted cmd) ((ls, r) # es) r' es ls [] [(Shell cmd, r)]"
  unfolding shell_def by (rule sr_unit [OF sr_ext_call])

lemma sr_class_def:
  "scripted_run (class_def scripted n bs body) ((ls, r) # es) r es ls [] [(ClassDef n bs body, r)]"
  unfolding class_def_def by (rule sr_ext_call)

lemma sr_py_call:
  "scripted_run (py_call scripted (PObj h) args kw) ((ls, r) # es) r es ls []
     [(Apply (PObj h) args kw, r)]"
  by (simp add: sr_ext_call)

lemma sr_py_method:
  "scripted_run (py_method scripted (PObj h) m args kw) ((ls, r) # es) r es ls []
     [(Method (PObj h) m args kw, r)]"
  by (simp add: sr_ext_call)

lemma sr_py_getattr:
  "scripted_run (py_getattr scripted (PObj h) a) ((ls, r) # es) r es ls [] [(GetAttr (PObj h) a, r)]"
  by (simp add: sr_ext_call)

lemma sr_subscript_0:
  "v = PList (x # xs) \<Longrightarrow> scripted_run (subscript ext v (PInt 0)) es (Inr x) es [] [] []"
  by (simp add: sr_lift py_nth_def)

lemma sr_subscript_2:
  "v = PList (x0 # x1 # x2 # xs) \<Longrightarrow>
   scripted_run (subscript ext v (PInt 2)) es (Inr x2) es [] [] []"
  by (simp add: sr_lift py_nth_def)

lemma sr_subscript_dict:
  "v = PDict d \<Longrightarrow> (map_of d key = Some x) = True \<Longrightarrow>
   scripted_run (subscript ext v (PStr key)) es (Inr x) es [] [] []"
  by (simp add: sr_ret)

lemma sr_iterate_list: "v = PList xs \<Longrightarrow> scripted_run (iterate ext v) es (Inr xs) es [] [] []"
  by (simp add: sr_ret)

lemma sr_for_each_Nil: "scripted_run (for_each [] body) es (Inr ()) es [] [] []"
  by (simp add: sr_ret)

lemma sr_for_each_Cons:
  assumes "scripted_run (body x) es r1 es1 l1 o1 q1"
    and "case r1 of Inr u \<Rightarrow> scripted_run (for_each xs body) es1 r es2 l2 o2 q2
         | Inl e \<Rightarrow> r = Inl e \<and> es2 = es1 \<and> l2 = [] \<and> o2 = [] \<and> q2 = []"
  shows "scripted_run (for_each (x # xs) body) es r es2 (l1 @ l2) (o1 @ o2) (q1 @ q2)"
  unfolding for_each.simps using assms by (rule sr_seq)

lemma sr_collect_Nil: "scripted_run (collect [] f) es (Inr []) es [] [] []"
  by (simp add: sr_ret)

lemma sr_collect_Cons:
  assumes "scripted_run (f x) es (Inr y) es1 l1 o1 q1"
    and "scripted_run (collect xs f) es1 (Inr ys) es2 l2 o2 q2"
  shows "scripted_run (collect (x # xs) f) es (Inr (y # ys)) es2 (l1 @ l2) (o1 @ o2) (q1 @ q2)"
proof -
  have inner: "scripted_run (nb_bind (collect xs f) (\<lambda>ys. ret (y # ys))) es1
      (Inr (y # ys)) es2 (l2 @ []) (o2 @ []) (q2 @ [])"
    by (rule sr_bind [OF assms(2)]) (simp add: sr_ret)
  have "scripted_run (nb_bind (f x) (\<lambda>y. nb_bind (collect xs f) (\<lambda>ys. ret (y # ys))))
      es (Inr (y # ys)) es2 (l1 @ l2 @ []) (o1 @ o2 @ []) (q1 @ q2 @ [])"
    by (rule sr_bind [OF assms(1)]) (use inner in simp)
  then show ?thesis by simp
qed

lemma sr_eq:
  "scripted_run m es r' rest' l' out' reqs \<Longrightarrow> r' = r \<Longrightarrow> rest' = rest \<Longrightarrow> l' = l \<Longrightarrow>
   out' = out \<Longrightarrow> scripted_run m es r rest l out reqs"
  by simp

lemma sr_start:
  assumes "scripted_run m (script s) r rest l out reqs" and "stderr s = []"
  shows "fst (m (start s)) = r \<and> script (world (snd (m (start s)))) = rest \<and>
         stderr (world (snd (m (start s)))) = l \<and> shown (snd (m (start s))) = out \<and>
         calls (snd (m (start s))) = reqs"
proof -
  have k0: "script (world (start s)) = script s" "stderr (world (start s)) = []"
    "shown (start s) = []" "calls (start s) = []"
    using assms(2) by (simp_all add: start_def)
  obtain r' k where run: "m (start s) = (r', k)" by (cases "m (start s)")
  from scripted_runD [OF assms(1) k0(1) run] k0 run show ?thesis by simp
qed

lemmas sr_rules = sr_bind sr_seq sr_ret sr_raise sr_lift sr_py_print sr_display_None sr_display
  sr_ext_call sr_import_module sr_import_names sr_shell sr_class_def sr_py_call sr_py_method
  sr_py_getattr sr_subscript_0 sr_subscript_2 sr_subscript_dict sr_iterate_list sr_for_each_Nil
  sr_for_each_Cons sr_collect_Nil sr_collect_Cons conjI refl

section \<open>Running a notebook against a library\<close>






















section \<open>The two notebooks, for every behaviour of the libraries\<close>

lemmas A_cells = A_cell1_def A_cell2_def A_cell3_def A_cell4_def A_cell5_def A_cell6_def
  A_cell7_def A_cell8_def A_cell9_def A_cell10_def A_cell11_def


lemma sound_start:
  assumes "sound ext proj m S" and "m (start w) = (r, k)"
  shows "replay ext w (calls k) = Some (world k) \<and> unhandled r (calls k) \<and>
         (case r of Inr _ \<Rightarrow> events proj (calls k) = S | Inl _ \<Rightarrow> prefix (events proj (calls k)) S)"
  using soundD [OF assms] by (auto simp: start_def)

lemma sound_completes:
  assumes "sound ext proj m S" and "m k = (Inr x, k')"
  shows "\<exists>new. calls k' = calls k @ new \<and> events proj new = S"
  using soundD [OF assms] by auto



subsection \<open>Events of the whole notebooks\<close>

lemma notebook_A_events: "sound ext A_event_of (notebook_A ext) A_events"
  apply (rule sound_eq)
  unfolding notebook_A_def A_cells
   apply (rule sound_rules | simp add: A_event_of_def imported_def module_def)+
  apply (simp add: A_events_def)
  done




subsection \<open>Runs that complete\<close>

lemma nb_bind_Inr:
  "nb_bind m f k = (Inr y, k'') \<longleftrightarrow> (\<exists>x k'. m k = (Inr x, k') \<and> f x k' = (Inr y, k''))"
  by (auto simp: nb_bind_def split: prod.splits sum.splits)

lemma nb_seq_Inr:
  "nb_seq m n k = (Inr y, k'') \<longleftrightarrow> (\<exists>x k'. m k = (Inr x, k') \<and> n k' = (Inr y, k''))"
  by (simp add: nb_seq_def nb_bind_Inr)

lemma ret_Inr: "ret x k = (Inr y, k') \<longleftrightarrow> y = x \<and> k' = k"
  by (auto simp: ret_def)

lemma ext_call_Inr:
  "ext_call ext c k = (Inr v, k') \<longleftrightarrow>
     (\<exists>w'. ext c (world k) = (Inr v, w') \<and> k' = k\<lparr>world := w', calls := calls k @ [(c, Inr v)]\<rparr>)"
  by (auto simp: ext_call_def split: prod.splits)

lemma py_call_Inr:
  "py_call ext f args kw k = (Inr v, k') \<longleftrightarrow>
     ((\<exists>h. f = PObj h) \<or> (\<exists>g. f = PFun g)) \<and> ext_call ext (Apply f args kw) k = (Inr v, k')"
  by (cases f) (simp_all add: raise_def)

lemma A_cell3_Inr:
  assumes "A_cell3 ext k = (Inr tools, k')"
  shows "\<exists>d1 t1 d2 t2. tools = PList [t1, t2] \<and>
     (Apply d1 [PFun Fn_get_weather] [], Inr t1) \<in> set (calls k') \<and>
     (Apply d2 [PFun Fn_jump] [], Inr t2) \<in> set (calls k')"
  using assms unfolding A_cell3_def
  by (clarsimp simp: nb_bind_Inr nb_seq_Inr ret_Inr py_call_Inr import_names_def class_def_def
      ext_call_Inr) blast

lemma A_cell4_Inr:
  assumes "A_cell4 ext tools k = (Inr agent, k')"
  shows "(Apply (imported ''dapr_agents'' ''ReActAgent'') []
        [(''name'', PStr ''Rob''), (''role'', PStr ''Weather Assistant''), (''tools'', tools)],
      Inr agent) \<in> set (calls k')"
  using assms unfolding A_cell4_def
  by (clarsimp simp: nb_bind_Inr nb_seq_Inr ret_Inr py_call_Inr import_names_def imported_def
      ext_call_Inr)

lemma A_setup_silent:
  "sound ext agent_use_of (A_cell1 ext) []"
  "sound ext agent_use_of (A_cell2 ext) []"
  "sound ext agent_use_of (A_cell3 ext) []"
  "sound ext agent_use_of (A_cell4 ext tools) []"
  unfolding A_cells
  by ((rule sound_eq, (rule sound_rules | simp add: agent_use_of_def)+)[1])+

lemma A_agent_uses:
  "sound ext agent_use_of
     (nb_seq (A_cell5 ext AIAgent)
     (nb_seq (A_cell6 ext AIAgent)
     (nb_seq (A_cell7 ext AIAgent)
     (nb_seq (A_cell8 ext AIAgent)
     (nb_seq (A_cell9 ext AIAgent)
     (nb_seq (A_cell10 ext AIAgent)
             (A_cell11 ext AIAgent)))))))
     [Run AIAgent [PStr prompt1] [], History AIAgent,
      Run AIAgent [PStr prompt2] [],
      Run AIAgent [PStr prompt3] [], History AIAgent]"
  apply (rule sound_eq)
  unfolding A_cells
   apply (rule sound_rules | simp add: agent_use_of_def)+
  done

lemma notebook_A_completed:
  assumes run: "notebook_A ext (start w) = (Inr u, k)"
  shows "\<exists>d1 t1 d2 t2 agent.
     (Apply d1 [PFun Fn_get_weather] [], Inr t1) \<in> set (calls k) \<and>
     (Apply d2 [PFun Fn_jump] [], Inr t2) \<in> set (calls k) \<and>
     (Apply (imported ''dapr_agents'' ''ReActAgent'') []
        [(''name'', PStr ''Rob''), (''role'', PStr ''Weather Assistant''),
         (''tools'', PList [t1, t2])], Inr agent) \<in> set (calls k) \<and>
     events agent_use_of (calls k) =
       [Run agent [PStr prompt1] [], History agent,
        Run agent [PStr prompt2] [],
        Run agent [PStr prompt3] [], History agent]"
proof -
  from run obtain k1 k2 tools k3 agent k4 where
    c1: "A_cell1 ext (start w) = (Inr (), k1)" and
    c2: "A_cell2 ext k1 = (Inr (), k2)" and
    c3: "A_cell3 ext k2 = (Inr tools, k3)" and
    c4: "A_cell4 ext tools k3 = (Inr agent, k4)" and
    c5: "nb_seq (A_cell5 ext agent)
        (nb_seq (A_cell6 ext agent)
        (nb_seq (A_cell7 ext agent)
        (nb_seq (A_cell8 ext agent)
        (nb_seq (A_cell9 ext agent)
        (nb_seq (A_cell10 ext agent)
                (A_cell11 ext agent)))))) k4 = (Inr u, k)"
    unfolding notebook_A_def by (auto simp: nb_bind_Inr nb_seq_Inr)
  from sound_completes [OF A_setup_silent(1) c1] obtain n1 where
    n1: "calls k1 = n1" "events agent_use_of n1 = []" by (auto simp: start_def)
  from sound_completes [OF A_setup_silent(2) c2] obtain n2 where
    n2: "calls k2 = calls k1 @ n2" "events agent_use_of n2 = []" by auto
  from sound_completes [OF A_setup_silent(3) c3] obtain n3 where
    n3: "calls k3 = calls k2 @ n3" "events agent_use_of n3 = []" by auto
  from sound_completes [OF A_setup_silent(4) c4] obtain n4 where
    n4: "calls k4 = calls k3 @ n4" "events agent_use_of n4 = []" by auto
  from sound_completes [OF A_agent_uses c5] obtain n5 where
    n5: "calls k = calls k4 @ n5"
      "events agent_use_of n5 =
         [Run agent [PStr prompt1] [], History agent,
          Run agent [PStr prompt2] [],
          Run agent [PStr prompt3] [], History agent]" by auto
  from A_cell3_Inr [OF c3] obtain d1 t1 d2 t2 where
    t: "tools = PList [t1, t2]"
      "(Apply d1 [PFun Fn_get_weather] [], Inr t1) \<in> set (calls k3)"
      "(Apply d2 [PFun Fn_jump] [], Inr t2) \<in> set (calls k3)" by blast
  note a = A_cell4_Inr [OF c4]
  have "(Apply d1 [PFun Fn_get_weather] [], Inr t1) \<in> set (calls k)"
    "(Apply d2 [PFun Fn_jump] [], Inr t2) \<in> set (calls k)"
    using t n4 n5 by simp_all
  moreover have "(Apply (imported ''dapr_agents'' ''ReActAgent'') []
        [(''name'', PStr ''Rob''), (''role'', PStr ''Weather Assistant''),
         (''tools'', PList [t1, t2])], Inr agent) \<in> set (calls k)"
    using a t n5 by simp
  moreover have "events agent_use_of (calls k) =
       [Run agent [PStr prompt1] [], History agent,
        Run agent [PStr prompt2] [],
        Run agent [PStr prompt3] [], History agent]"
    using n1 n2 n3 n4 n5 by simp
  ultimately show ?thesis by blast
qed

subsection \<open>The first requests\<close>









subsection \<open>The ids that notebook B passes on\<close>




subsection \<open>The receivers of the method calls of notebook B\<close>











section \<open>The recorded executions, replayed\<close>

lemma A_out_not_None:
  "A_out1 \<noteq> PNone" "A_out6 \<noteq> PNone" "A_out7 \<noteq> PNone" "A_out8 \<noteq> PNone"
  "A_out9 \<noteq> PNone" "A_out10 \<noteq> PNone" "A_out11 \<noteq> PNone"
  by (simp_all add: A_out1_def A_out6_def A_out7_def A_out8_def A_out9_def A_out10_def A_out11_def)


text \<open>
  Each replay goes through the notebook statement by statement, taking the next entry of
  the script at each request.
\<close>

lemma recorded_A_run:
  "\<exists>reqs. scripted_run (notebook_A scripted) (script recorded_A) (Inr ()) []
     (A_log4 @ A_log7 @ A_log9 @ A_log10)
     [(1, A_out1), (5, PObj ''ChatPromptTemplate''), (6, A_out6), (7, A_out7), (8, A_out8),
      (9, A_out9), (10, A_out10), (11, A_out11)] reqs \<and>
     run_exchanges reqs =
       [([PStr prompt1], Inr A_out7), ([PStr prompt2], Inr A_out9), ([PStr prompt3], Inr A_out10)]"
  apply (rule exI)
  apply (rule conjI)
  apply (rule sr_eq)
  unfolding notebook_A_def A_cells recorded_A_def session_of_def imported_def module_def
      apply (simp only: session.simps)
      apply (rule sr_rules | simp only: sum.case map_sum.simps id_apply
        | (rule eqTrueI, (simp add: A_out_not_None; fail)))+
    apply (simp_all add: run_exchanges_def)
  done





lemma stderr_of_sessions [simp]:
  "stderr recorded_A = []" "stderr recorded_B = []" "stderr refused_A = []" "stderr refused_B = []"
  by (simp_all add: recorded_A_def recorded_B_def refused_A_def refused_B_def session_of_def)

lemma recorded_A_outcome:
  "fst (notebook_A scripted (start recorded_A)) = Inr ()"
  "shown (snd (notebook_A scripted (start recorded_A))) =
     [(1, A_out1), (5, PObj ''ChatPromptTemplate''), (6, A_out6), (7, A_out7), (8, A_out8),
      (9, A_out9), (10, A_out10), (11, A_out11)]"
  "stderr (world (snd (notebook_A scripted (start recorded_A)))) =
     A_log4 @ A_log7 @ A_log9 @ A_log10"
  "run_exchanges (calls (snd (notebook_A scripted (start recorded_A)))) =
     [([PStr prompt1], Inr A_out7), ([PStr prompt2], Inr A_out9), ([PStr prompt3], Inr A_out10)]"
proof -
  from recorded_A_run obtain reqs where
    r: "scripted_run (notebook_A scripted) (script recorded_A) (Inr ()) []
     (A_log4 @ A_log7 @ A_log9 @ A_log10)
     [(1, A_out1), (5, PObj ''ChatPromptTemplate''), (6, A_out6), (7, A_out7), (8, A_out8),
      (9, A_out9), (10, A_out10), (11, A_out11)] reqs"
    and x: "run_exchanges reqs =
       [([PStr prompt1], Inr A_out7), ([PStr prompt2], Inr A_out9), ([PStr prompt3], Inr A_out10)]"
    by blast
  note s = sr_start [OF r stderr_of_sessions(1)]
  from s show "fst (notebook_A scripted (start recorded_A)) = Inr ()" by simp
  from s show "shown (snd (notebook_A scripted (start recorded_A))) =
     [(1, A_out1), (5, PObj ''ChatPromptTemplate''), (6, A_out6), (7, A_out7), (8, A_out8),
      (9, A_out9), (10, A_out10), (11, A_out11)]" by simp
  from s show "stderr (world (snd (notebook_A scripted (start recorded_A)))) =
     A_log4 @ A_log7 @ A_log9 @ A_log10" by simp
  from s x show "run_exchanges (calls (snd (notebook_A scripted (start recorded_A)))) =
     [([PStr prompt1], Inr A_out7), ([PStr prompt2], Inr A_out9), ([PStr prompt3], Inr A_out10)]"
    by simp
qed




section \<open>Notebook A against the model of the agent library\<close>








section \<open>Properties of the tool functions\<close>

text \<open>The digits that \<open>str_nat\<close> writes denote the number they were written for.\<close>

lemma digit_char_value: "d < 10 \<Longrightarrow> of_char (digit_char d) = 48 + d"
proof -
  assume "d < 10"
  then have "d \<in> {0, 1, 2, 3, 4, 5, 6, 7, 8, 9}" by auto
  then show ?thesis by (auto simp: digit_char_def)
qed

lemma decimal_value_str_nat: "decimal_value (str_nat n) = n"
proof (induction n rule: str_nat.induct)
  case (1 n)
  show ?case
  proof (cases "n < 10")
    case True
    then show ?thesis
      by (subst str_nat.simps) (simp add: decimal_value_def digit_char_value)
  next
    case False
    have step: "decimal_value (ds @ [c]) = 10 * decimal_value ds + (of_char c - 48)" for ds c
      by (simp add: decimal_value_def)
    have "decimal_value (str_nat n) = 10 * (n div 10) + (n mod 10)"
      using False "1.IH" by (subst str_nat.simps) (simp add: step digit_char_value)
    then show ?thesis by simp
  qed
qed

lemma get_weather_outcomes:
  "get_weather location = (\<lambda>t. Inr (location @ '': '' @ str_int t @ ''F.'')) ` {60..80}"
  by (auto simp: get_weather_def and_then_def randint_def returns_def)

text \<open>
  C1. For every string \<open>location\<close>, a call \<open>get_weather(location)\<close> returns, and whatever
  it returns is \<open>location\<close>, then \<open>": "\<close>, then the decimal rendering of an integer \<open>t\<close>
  with \<open>60 \<le> t \<le> 80\<close>, then \<open>"F."\<close>. It never raises.
\<close>

theorem get_weather_returns_temperature_string:
  "(\<exists>r. r \<in> get_weather location) \<and>
   (\<forall>r \<in> get_weather location.
      \<exists>t. 60 \<le> t \<and> t \<le> 80 \<and> r = Inr (location @ '': '' @ str_int t @ ''F.''))"
  unfolding get_weather_outcomes by auto

theorem get_weather_returns_temperature_string_witness:
  "Inr ''Virginia: 74F.'' \<in> get_weather ''Virginia'' \<and>
   (\<exists>t. 60 \<le> t \<and> t \<le> 80 \<and>
      (Inr ''Virginia: 74F.'' :: error + string) = Inr (''Virginia'' @ '': '' @ str_int t @ ''F.''))"
proof -
  have s: "str_int 74 = ''74''" by code_simp
  have mem: "Inr ''Virginia: 74F.'' \<in> get_weather ''Virginia''"
    unfolding get_weather_outcomes using s by (intro image_eqI [where x = 74]) simp_all
  with get_weather_returns_temperature_string [of "''Virginia''"] show ?thesis by blast
qed

text \<open>
  C2. For every string \<open>distance\<close>, \<open>jump(distance)\<close> returns exactly
  \<open>"I jumped the following distance "\<close> followed by \<open>distance\<close>; any two calls with the same
  argument have the same result.
\<close>

theorem jump_returns_fixed_string:
  "jump distance = {Inr (''I jumped the following distance '' @ distance)} \<and>
   (\<forall>r1 \<in> jump distance. \<forall>r2 \<in> jump distance. r1 = r2)"
  by (simp add: jump_def returns_def)

theorem jump_returns_fixed_string_witness:
  "jump ''5 feet'' = {Inr ''I jumped the following distance 5 feet''} \<and>
   Inr ''I jumped the following distance 5 feet'' \<in> jump ''5 feet''"
  using jump_returns_fixed_string [of "''5 feet''"] by simp

text \<open>
  C7. The result of \<open>get_weather\<close> is not a function of its argument: for every \<open>location\<close>
  there are two executions of \<open>get_weather(location)\<close> that return different strings.
\<close>

theorem get_weather_not_deterministic:
  "\<exists>s1 s2. Inr s1 \<in> get_weather location \<and> Inr s2 \<in> get_weather location \<and> s1 \<noteq> s2"
proof -
  have s60: "str_int 60 = ''60''" and s61: "str_int 61 = ''61''" by code_simp+
  have "Inr (location @ '': '' @ str_int 60 @ ''F.'') \<in> get_weather location"
    and "Inr (location @ '': '' @ str_int 61 @ ''F.'') \<in> get_weather location"
    unfolding get_weather_outcomes by auto
  moreover have "location @ '': '' @ str_int 60 @ ''F.'' \<noteq> location @ '': '' @ str_int 61 @ ''F.''"
    by (simp add: s60 s61)
  ultimately show ?thesis by blast
qed

section \<open>Properties of the notebooks\<close>

text \<open>
  C3. Notebook A declares its two tools, constructs the agent, and then calls the agent's
  \<open>run\<close> exactly three times, with the three literal prompts in the order of the cells;
  it reads \<open>chat_history\<close> after the first and after the third call. Whatever the
  libraries do: a run of the notebook that completes made exactly these calls, all on the
  object the constructor returned, and a run that raises made a beginning of them. The
  calls are sequential: the log replays, every request being answered in the world that
  the answer to the previous request left.
\<close>

theorem notebook_A_runs_agent_three_times:
  assumes "notebook_A ext (start w) = (r, k)"
  shows "replay ext w (calls k) = Some (world k) \<and>
     (case r of
        Inr _ \<Rightarrow>
          events A_event_of (calls k) =
            [Declares Fn_get_weather, Declares Fn_jump, Constructs,
             Runs [PStr prompt1] [], ReadsHistory,
             Runs [PStr prompt2] [],
             Runs [PStr prompt3] [], ReadsHistory] \<and>
          (\<exists>agent kw.
             (Apply (imported ''dapr_agents'' ''ReActAgent'') [] kw, Inr agent) \<in> set (calls k) \<and>
             events agent_use_of (calls k) =
               [Run agent [PStr prompt1] [], History agent,
                Run agent [PStr prompt2] [],
                Run agent [PStr prompt3] [], History agent])
      | Inl _ \<Rightarrow> prefix (events A_event_of (calls k)) A_events)"
proof -
  note s = sound_start [OF notebook_A_events assms]
  show ?thesis
  proof (cases r)
    case (Inl e)
    with s show ?thesis by simp
  next
    case (Inr u)
    with assms have "notebook_A ext (start w) = (Inr u, k)" by simp
    from notebook_A_completed [OF this] Inr s show ?thesis
      by (simp add: A_events_def) blast
  qed
qed

theorem notebook_A_runs_agent_three_times_witness:
  "fst (notebook_A scripted (start recorded_A)) = Inr () \<and>
   replay scripted recorded_A (calls (snd (notebook_A scripted (start recorded_A)))) =
     Some (world (snd (notebook_A scripted (start recorded_A)))) \<and>
   events A_event_of (calls (snd (notebook_A scripted (start recorded_A)))) =
     [Declares Fn_get_weather, Declares Fn_jump, Constructs,
      Runs [PStr prompt1] [], ReadsHistory,
      Runs [PStr prompt2] [],
      Runs [PStr prompt3] [], ReadsHistory]"
proof -
  obtain k where run: "notebook_A scripted (start recorded_A) = (Inr (), k)"
    using recorded_A_outcome(1) by (cases "notebook_A scripted (start recorded_A)") auto
  from notebook_A_runs_agent_three_times [OF run] run show ?thesis by simp
qed












end
